theory Spec2Isabelle
  imports Complex_Main "HOL-Library.Option_ord"
begin

section \<open>The procurement backend of \<^verbatim>\<open>server.js\<close>\<close>

text \<open>
  The server is an Express application over one SQLite connection. The model follows the
  file top to bottom: the four tables of \<^verbatim>\<open>initDb\<close>, the three promise wrappers
  \<^verbatim>\<open>dbRun\<close>, \<^verbatim>\<open>dbGet\<close>, \<^verbatim>\<open>dbAll\<close> specialised to the SQL statements the handlers send,
  the middleware and route handlers, and the application's layer stack in the order in
  which \<^verbatim>\<open>app.use\<close>, \<^verbatim>\<open>app.post\<close> and \<^verbatim>\<open>app.get\<close> register the layers.

  Requests are handled one at a time. A JSON field that is absent or \<^verbatim>\<open>null\<close> is
  \<open>None\<close>; it reaches the store as SQL \<^verbatim>\<open>NULL\<close>. Present fields have the type the
  column declares (identifiers are integers, amounts are numbers, the rest is text).
  Failures of the store other than constraint violations (I/O, a missing table) are not
  modelled.
\<close>

subsection \<open>Rows of the four tables (\<^verbatim>\<open>initDb\<close>, lines 20 to 56)\<close>

record user =
  u_id :: int
  u_name :: "string option"
  u_email :: "string option"
  u_password :: string

record supplier =
  s_id :: int
  s_name :: "string option"
  s_registrationNumber :: "string option"
  s_address :: "string option"

record rfp =
  r_id :: int
  r_title :: "string option"
  r_description :: "string option"
  r_createdAt :: string

record bid =
  b_id :: int
  b_rfpId :: "int option"
  b_supplierId :: "int option"
  b_amount :: "rat option"
  b_documents :: "string option"
  b_status :: string
  b_createdAt :: string

text \<open>
  The connection: the tables in rowid order, the \<^verbatim>\<open>AUTOINCREMENT\<close> counter of each
  table (the largest rowid it has ever held), and the \<^verbatim>\<open>foreign_keys\<close> pragma of the
  connection, which SQLite leaves off unless a statement turns it on.
\<close>

record db =
  foreign_keys :: bool
  users :: "user list"
  users_seq :: nat
  suppliers :: "supplier list"
  suppliers_seq :: nat
  rfps :: "rfp list"
  rfps_seq :: nat
  bids :: "bid list"
  bids_seq :: nat

text \<open>The state after line 11 opened a fresh file and \<^verbatim>\<open>initDb\<close> created the tables.\<close>

definition init_db :: db where
  "init_db = \<lparr>foreign_keys = False,
     users = [], users_seq = 0, suppliers = [], suppliers_seq = 0,
     rfps = [], rfps_seq = 0, bids = [], bids_seq = 0\<rparr>"

subsection \<open>Failures, JSON and responses\<close>

text \<open>
  A JavaScript \<^verbatim>\<open>Error\<close>: its \<^verbatim>\<open>message\<close> and, when the thrower set one, its
  \<^verbatim>\<open>status\<close> (body-parser sets 400; SQLite and bcrypt errors carry none).
\<close>

datatype error = Error (message: string) (err_status: "nat option")

datatype json =
  JNull
  | JNum rat
  | JStr string
  | JArr "json list"
  | JObj "(string \<times> json) list"

text \<open>
  A response body is either what \<^verbatim>\<open>res.json\<close> sent, or the HTML page that Express's
  built-in final handler renders when no layer of the stack took the request or the
  pending error.
\<close>

datatype body =
  Json json
  | Default_error_page error
  | Default_not_found_page

record response =
  status :: nat
  body :: body

definition text_json :: "string option \<Rightarrow> json" where
  "text_json t = (case t of None \<Rightarrow> JNull | Some s \<Rightarrow> JStr s)"

definition int_json :: "int option \<Rightarrow> json" where
  "int_json i = (case i of None \<Rightarrow> JNull | Some n \<Rightarrow> JNum (of_int n))"

definition real_json :: "rat option \<Rightarrow> json" where
  "real_json a = (case a of None \<Rightarrow> JNull | Some x \<Rightarrow> JNum x)"

definition rfp_json :: "rfp \<Rightarrow> json" where
  "rfp_json r = JObj [(''id'', JNum (of_int (r_id r))), (''title'', text_json (r_title r)),
     (''description'', text_json (r_description r)), (''createdAt'', JStr (r_createdAt r))]"

definition bid_json :: "bid \<Rightarrow> json" where
  "bid_json b = JObj [(''id'', JNum (of_int (b_id b))), (''rfpId'', int_json (b_rfpId b)),
     (''supplierId'', int_json (b_supplierId b)), (''amount'', real_json (b_amount b)),
     (''documents'', text_json (b_documents b)), (''status'', JStr (b_status b)),
     (''createdAt'', JStr (b_createdAt b))]"

subsection \<open>What each call takes from outside the program\<close>

text \<open>
  \<^verbatim>\<open>bcrypt\<close> is a library: \<^verbatim>\<open>bcrypt.hash(password, 10)\<close> draws a fresh salt on every
  call, so the function it computes is a parameter of the single call, as is the
  store's clock behind \<^verbatim>\<open>CURRENT_TIMESTAMP\<close>.
\<close>

record env =
  bcrypt_hash :: "string \<Rightarrow> nat \<Rightarrow> string"
  bcrypt_compare :: "string \<Rightarrow> string \<Rightarrow> bool"
  current_timestamp :: string

text \<open>Both library calls reject a missing first argument.\<close>

definition hash :: "env \<Rightarrow> string option \<Rightarrow> nat \<Rightarrow> error + string" where
  "hash E password rounds =
     (case password of
        None \<Rightarrow> Inl (Error ''data and salt arguments required'' None)
      | Some p \<Rightarrow> Inr (bcrypt_hash E p rounds))"

definition compare :: "env \<Rightarrow> string option \<Rightarrow> string \<Rightarrow> error + bool" where
  "compare E password hashed =
     (case password of
        None \<Rightarrow> Inl (Error ''data and hash arguments required'' None)
      | Some p \<Rightarrow> Inr (bcrypt_compare E p hashed))"

subsection \<open>The statements sent through \<^verbatim>\<open>dbRun\<close>, \<^verbatim>\<open>dbGet\<close> and \<^verbatim>\<open>dbAll\<close>\<close>

text \<open>
  Each wrapper resolves (\<open>Inr\<close>) or rejects (\<open>Inl\<close>). \<^verbatim>\<open>dbRun\<close> resolves with the
  statement object, of which the handlers read \<^verbatim>\<open>lastID\<close> only.

  A \<^verbatim>\<open>UNIQUE\<close> column rejects a value equal to a stored one; \<^verbatim>\<open>NULL\<close> equals nothing,
  itself included, so any number of rows may hold \<^verbatim>\<open>NULL\<close>. A rejected insert leaves the
  table and its counter as they were.
\<close>

definition sql_eq :: "'a option \<Rightarrow> 'a option \<Rightarrow> bool" where
  "sql_eq x y = (case x of None \<Rightarrow> False | Some a \<Rightarrow> (case y of None \<Rightarrow> False | Some b \<Rightarrow> a = b))"

text \<open>\<^verbatim>\<open>INSERT INTO users (name, email, password) VALUES (?, ?, ?)\<close>\<close>

definition insert_user :: "string option \<Rightarrow> string option \<Rightarrow> string \<Rightarrow> db \<Rightarrow> error + (int \<times> db)" where
  "insert_user name email password d =
     (if list_ex (\<lambda>u. sql_eq (u_email u) email) (users d)
      then Inl (Error ''SQLITE_CONSTRAINT: UNIQUE constraint failed: users.email'' None)
      else let lastID = int (Suc (users_seq d)) in
        Inr (lastID, d\<lparr>users := users d @
               [\<lparr>u_id = lastID, u_name = name, u_email = email, u_password = password\<rparr>],
             users_seq := Suc (users_seq d)\<rparr>))"

text \<open>\<^verbatim>\<open>SELECT * FROM users WHERE email = ?\<close>, first row\<close>

definition select_user_by_email :: "string option \<Rightarrow> db \<Rightarrow> error + user option" where
  "select_user_by_email email d = Inr (find (\<lambda>u. sql_eq (u_email u) email) (users d))"

text \<open>\<^verbatim>\<open>INSERT INTO suppliers (name, registrationNumber, address) VALUES (?, ?, ?)\<close>\<close>

definition insert_supplier ::
  "string option \<Rightarrow> string option \<Rightarrow> string option \<Rightarrow> db \<Rightarrow> error + (int \<times> db)" where
  "insert_supplier name registrationNumber address d =
     (if list_ex (\<lambda>s. sql_eq (s_registrationNumber s) registrationNumber) (suppliers d)
      then Inl (Error
        ''SQLITE_CONSTRAINT: UNIQUE constraint failed: suppliers.registrationNumber'' None)
      else let lastID = int (Suc (suppliers_seq d)) in
        Inr (lastID, d\<lparr>suppliers := suppliers d @
               [\<lparr>s_id = lastID, s_name = name, s_registrationNumber = registrationNumber,
                 s_address = address\<rparr>],
             suppliers_seq := Suc (suppliers_seq d)\<rparr>))"

text \<open>
  \<^verbatim>\<open>INSERT INTO bids (rfpId, supplierId, amount, documents) VALUES (?, ?, ?, ?)\<close>.
  The table declares two foreign keys (lines 48 and 49); SQLite checks them only on a
  connection whose \<^verbatim>\<open>foreign_keys\<close> pragma is on, and \<^verbatim>\<open>NULL\<close> references nothing.
\<close>

definition references :: "int option \<Rightarrow> int list \<Rightarrow> bool" where
  "references k ids = (case k of None \<Rightarrow> True | Some i \<Rightarrow> i \<in> set ids)"

definition insert_bid ::
  "string \<Rightarrow> int option \<Rightarrow> int option \<Rightarrow> rat option \<Rightarrow> string option \<Rightarrow> db \<Rightarrow> error + (int \<times> db)" where
  "insert_bid now rfpId supplierId amount documents d =
     (if foreign_keys d \<and>
         \<not> (references rfpId (map r_id (rfps d)) \<and> references supplierId (map s_id (suppliers d)))
      then Inl (Error ''SQLITE_CONSTRAINT: FOREIGN KEY constraint failed'' None)
      else let lastID = int (Suc (bids_seq d)) in
        Inr (lastID, d\<lparr>bids := bids d @
               [\<lparr>b_id = lastID, b_rfpId = rfpId, b_supplierId = supplierId, b_amount = amount,
                 b_documents = documents, b_status = ''pending'', b_createdAt = now\<rparr>],
             bids_seq := Suc (bids_seq d)\<rparr>))"

text \<open>\<^verbatim>\<open>SELECT * FROM bids WHERE rfpId = ?\<close>\<close>

definition select_bids_by_rfp :: "int option \<Rightarrow> db \<Rightarrow> error + bid list" where
  "select_bids_by_rfp rfpId d = Inr (filter (\<lambda>b. sql_eq (b_rfpId b) rfpId) (bids d))"

text \<open>\<^verbatim>\<open>UPDATE bids SET status = ? WHERE rfpId = ?\<close>; \<^verbatim>\<open>lastID\<close> is not read.\<close>

definition update_bids_status :: "string \<Rightarrow> int option \<Rightarrow> db \<Rightarrow> error + db" where
  "update_bids_status new_status rfpId d =
     Inr (d\<lparr>bids := map (\<lambda>b. if sql_eq (b_rfpId b) rfpId then b\<lparr>b_status := new_status\<rparr> else b)
                     (bids d)\<rparr>)"

text \<open>\<^verbatim>\<open>SELECT * FROM rfps\<close>\<close>

definition select_rfps :: "db \<Rightarrow> error + rfp list" where
  "select_rfps d = Inr (rfps d)"

text \<open>\<^verbatim>\<open>INSERT INTO rfps (title, description) VALUES (?, ?)\<close>\<close>

definition insert_rfp :: "string \<Rightarrow> string option \<Rightarrow> string option \<Rightarrow> db \<Rightarrow> error + (int \<times> db)" where
  "insert_rfp now title description d =
     (let lastID = int (Suc (rfps_seq d)) in
        Inr (lastID, d\<lparr>rfps := rfps d @
               [\<lparr>r_id = lastID, r_title = title, r_description = description, r_createdAt = now\<rparr>],
             rfps_seq := Suc (rfps_seq d)\<rparr>))"

text \<open>
  \<^verbatim>\<open>SELECT * FROM bids WHERE rfpId = ? ORDER BY amount ASC LIMIT 1\<close>. The parameter is the
  path segment, read as the integer with which the store compares it to the column.
  \<^verbatim>\<open>NULL\<close> amounts sort before every number, which is the order of \<open>rat option\<close>.
  Among equal amounts SQLite promises no order; the model keeps rowid order.
\<close>

definition select_winning_bid :: "int \<Rightarrow> db \<Rightarrow> error + bid option" where
  "select_winning_bid rfpId d =
     Inr (case sort_key b_amount (filter (\<lambda>b. sql_eq (b_rfpId b) (Some rfpId)) (bids d)) of
            [] \<Rightarrow> None
          | row # _ \<Rightarrow> Some row)"

subsection \<open>Requests and handlers\<close>

text \<open>
  One constructor for each route with the fields its handler destructures, and one for a
  request whose body \<^verbatim>\<open>bodyParser.json()\<close> cannot parse (with the parser's message).
\<close>

datatype request =
  Register "string option" "string option" "string option"
  | Login "string option" "string option"
  | Onboard "string option" "string option" "string option"
  | Submit_bid "int option" "int option" "rat option" "string option"
  | Evaluate "int option"
  | List_rfps
  | Create_rfp "string option" "string option"
  | Winning_bid int
  | Malformed_body string

text \<open>
  A layer ends the request with a response, hands a failure to \<^verbatim>\<open>next(error)\<close>, or
  calls \<^verbatim>\<open>next()\<close>. A route whose method and path do not match the request is skipped,
  which is \<open>Next\<close> as well.
\<close>

datatype outcome = Done response | Next_error error | Next

type_synonym handler = "request \<Rightarrow> db \<Rightarrow> outcome \<times> db"

definition json_response :: "nat \<Rightarrow> json \<Rightarrow> response" where
  "json_response code j = \<lparr>status = code, body = Json j\<rparr>"

text \<open>Lines 59 and 60: \<^verbatim>\<open>cors()\<close> adds headers only; \<^verbatim>\<open>bodyParser.json()\<close> parses the body.\<close>

definition cors :: handler where
  "cors req d = (Next, d)"

fun bodyParser_json :: handler where
  "bodyParser_json (Malformed_body msg) d = (Next_error (Error msg (Some 400)), d)"
| "bodyParser_json _ d = (Next, d)"

text \<open>Lines 91 to 94, the error handler middleware.\<close>

definition error_handler :: "error \<Rightarrow> request \<Rightarrow> response" where
  "error_handler err req =
     json_response 500 (JObj [(''message'', JStr ''Internal server error''),
                              (''error'', JStr (message err))])"

text \<open>Lines 97 to 107.\<close>

fun register :: "env \<Rightarrow> handler" where
  "register E (Register name email password) d =
     (case hash E password 10 of
        Inl error \<Rightarrow> (Next_error error, d)
      | Inr hashedPassword \<Rightarrow>
          (case insert_user name email hashedPassword d of
             Inl error \<Rightarrow> (Next_error error, d)
           | Inr (lastID, d') \<Rightarrow>
               (Done (json_response 201 (JObj [(''message'', JStr ''User registered successfully''),
                                               (''userId'', JNum (of_int lastID))])), d')))"
| "register E _ d = (Next, d)"

text \<open>Lines 110 to 128.\<close>

fun login :: "env \<Rightarrow> handler" where
  "login E (Login email password) d =
     (case select_user_by_email email d of
        Inl error \<Rightarrow> (Next_error error, d)
      | Inr None \<Rightarrow> (Done (json_response 401 (JObj [(''message'', JStr ''Invalid credentials'')])), d)
      | Inr (Some user) \<Rightarrow>
          (case compare E password (u_password user) of
             Inl error \<Rightarrow> (Next_error error, d)
           | Inr result \<Rightarrow>
               if \<not> result
               then (Done (json_response 401 (JObj [(''message'', JStr ''Invalid credentials'')])), d)
               else (Done (json_response 200 (JObj [(''message'', JStr ''Login successful''),
                                                    (''userId'', JNum (of_int (u_id user)))])), d)))"
| "login E _ d = (Next, d)"

text \<open>Lines 131 to 141.\<close>

fun onboard :: handler where
  "onboard (Onboard name registrationNumber address) d =
     (case insert_supplier name registrationNumber address d of
        Inl error \<Rightarrow> (Next_error error, d)
      | Inr (lastID, d') \<Rightarrow>
          (Done (json_response 201 (JObj [(''message'', JStr ''Supplier onboarded successfully''),
                                          (''supplierId'', JNum (of_int lastID))])), d'))"
| "onboard _ d = (Next, d)"

text \<open>Lines 144 to 154.\<close>

fun submit_bid :: "env \<Rightarrow> handler" where
  "submit_bid E (Submit_bid rfpId supplierId amount documents) d =
     (case insert_bid (current_timestamp E) rfpId supplierId amount documents d of
        Inl error \<Rightarrow> (Next_error error, d)
      | Inr (lastID, d') \<Rightarrow>
          (Done (json_response 201 (JObj [(''message'', JStr ''Bid submitted successfully''),
                                          (''bidId'', JNum (of_int lastID))])), d'))"
| "submit_bid E _ d = (Next, d)"

text \<open>Lines 157 to 167.\<close>

fun evaluate :: handler where
  "evaluate (Evaluate rfpId) d =
     (case select_bids_by_rfp rfpId d of
        Inl error \<Rightarrow> (Next_error error, d)
      | Inr bids' \<Rightarrow>
          (case update_bids_status ''evaluated'' rfpId d of
             Inl error \<Rightarrow> (Next_error error, d)
           | Inr d' \<Rightarrow>
               (Done (json_response 200 (JObj [(''message'', JStr ''Bids evaluated successfully''),
                        (''evaluatedBidsCount'', JNum (of_nat (length bids')))])), d')))"
| "evaluate _ d = (Next, d)"

text \<open>Lines 170 to 177.\<close>

fun list_rfps :: handler where
  "list_rfps List_rfps d =
     (case select_rfps d of
        Inl error \<Rightarrow> (Next_error error, d)
      | Inr rfps' \<Rightarrow> (Done (json_response 200 (JArr (map rfp_json rfps'))), d))"
| "list_rfps _ d = (Next, d)"

text \<open>Lines 180 to 189.\<close>

fun create_rfp :: "env \<Rightarrow> handler" where
  "create_rfp E (Create_rfp title description) d =
     (case insert_rfp (current_timestamp E) title description d of
        Inl error \<Rightarrow> (Next_error error, d)
      | Inr (lastID, d') \<Rightarrow>
          (Done (json_response 201 (JObj [(''message'', JStr ''RFP created successfully''),
                                          (''rfpId'', JNum (of_int lastID))])), d'))"
| "create_rfp E _ d = (Next, d)"

text \<open>Lines 192 to 204.\<close>

fun winning_bid :: handler where
  "winning_bid (Winning_bid rfpId) d =
     (case select_winning_bid rfpId d of
        Inl error \<Rightarrow> (Next_error error, d)
      | Inr None \<Rightarrow>
          (Done (json_response 404 (JObj [(''message'', JStr ''No bids found for this RFP'')])), d)
      | Inr (Some winningBid) \<Rightarrow>
          (Done (json_response 200 (JObj [(''winningBid'', bid_json winningBid)])), d))"
| "winning_bid _ d = (Next, d)"

subsection \<open>The layer stack and Express's dispatch\<close>

text \<open>
  Express keeps the layers in registration order. A request enters at the first layer
  with no pending error. \<^verbatim>\<open>next()\<close> and \<^verbatim>\<open>next(error)\<close> go on with the layers after
  the calling one, never with an earlier one: while an error is pending only
  error-handling layers (four parameters) run, while none is pending they are skipped.
  When the stack is exhausted the built-in final handler answers: with 404 if no error is
  pending, else with the error's own status, or 500 if it has none, and an HTML page.
\<close>

datatype layer =
  Use handler
  | Use_error "error \<Rightarrow> request \<Rightarrow> response"
  | Route handler

definition finalhandler :: "error option \<Rightarrow> response" where
  "finalhandler pending =
     (case pending of
        None \<Rightarrow> \<lparr>status = 404, body = Default_not_found_page\<rparr>
      | Some err \<Rightarrow>
          \<lparr>status = (case err_status err of None \<Rightarrow> 500 | Some s \<Rightarrow> s),
           body = Default_error_page err\<rparr>)"

definition run_layer :: "handler \<Rightarrow> request \<Rightarrow> db \<Rightarrow> (response + error option) \<times> db" where
  "run_layer h req d =
     (case h req d of
        (Done res, d') \<Rightarrow> (Inl res, d')
      | (Next_error err, d') \<Rightarrow> (Inr (Some err), d')
      | (Next, d') \<Rightarrow> (Inr None, d'))"

fun handle :: "layer list \<Rightarrow> error option \<Rightarrow> request \<Rightarrow> db \<Rightarrow> response \<times> db" where
  "handle [] pending req d = (finalhandler pending, d)"
| "handle (Use_error h # stack) None req d = handle stack None req d"
| "handle (Use_error h # stack) (Some err) req d = (h err req, d)"
| "handle (Use h # stack) (Some err) req d = handle stack (Some err) req d"
| "handle (Route h # stack) (Some err) req d = handle stack (Some err) req d"
| "handle (Use h # stack) None req d =
     (case run_layer h req d of
        (Inl res, d') \<Rightarrow> (res, d')
      | (Inr pending, d') \<Rightarrow> handle stack pending req d')"
| "handle (Route h # stack) None req d =
     (case run_layer h req d of
        (Inl res, d') \<Rightarrow> (res, d')
      | (Inr pending, d') \<Rightarrow> handle stack pending req d')"

text \<open>
  The stack of \<^verbatim>\<open>server.js\<close>: the middleware of lines 59 and 60, the error handler of
  line 91, then the routes of lines 97, 110, 131, 144, 157, 170, 180 and 192.
\<close>

definition routes :: "env \<Rightarrow> handler list" where
  "routes E =
     [register E, login E, onboard, submit_bid E, evaluate, list_rfps, create_rfp E, winning_bid]"

definition stack :: "env \<Rightarrow> layer list" where
  "stack E =
     Use cors # Use bodyParser_json # Use_error error_handler # map Route (routes E)"

definition app :: "env \<Rightarrow> request \<Rightarrow> db \<Rightarrow> response \<times> db" where
  "app E req d = handle (stack E) None req d"

text \<open>The states the store can be in: the fresh one, and any state a request leaves.\<close>

inductive reachable :: "db \<Rightarrow> bool" where
  fresh: "reachable init_db"
| request: "reachable d \<Longrightarrow> reachable (snd (app E req d))"

subsection \<open>Invariants of the store and inputs for worked examples\<close>

text \<open>
  What every reachable state satisfies: foreign keys are not enforced, an email is held by
  at most one row, and no bid has an identifier beyond the table's counter.
\<close>

definition invariant :: "db \<Rightarrow> bool" where
  "invariant d \<longleftrightarrow>
     \<not> foreign_keys d \<and>
     (\<forall>e. length (filter (\<lambda>u. u_email u = Some e) (users d)) \<le> 1) \<and>
     (\<forall>b\<in>set (bids d). b_id b \<le> int (bids_seq d))"

text \<open>The bids of an RFP, counted, and all of them at status \<open>evaluated\<close>.\<close>

definition count_bids :: "int option \<Rightarrow> db \<Rightarrow> nat" where
  "count_bids rfpId d = length (filter (\<lambda>b. sql_eq (b_rfpId b) rfpId) (bids d))"

definition evaluated_all :: "int option \<Rightarrow> db \<Rightarrow> bool" where
  "evaluated_all rfpId d =
     list_all (\<lambda>b. b_status b = ''evaluated'') (filter (\<lambda>b. sql_eq (b_rfpId b) rfpId) (bids d))"

text \<open>
  The examples fix what the outside gave in the calls concerned: the hash that
  \<^verbatim>\<open>bcrypt.hash\<close> returned, the one password that \<^verbatim>\<open>bcrypt.compare\<close> accepted against
  it, and the clock reading.
\<close>

definition example_env :: env where
  "example_env =
     \<lparr>bcrypt_hash = (\<lambda>p rounds. ''$2b$10$N9qo8uLOickgx2ZMRZoMyeIjZAgcfl7p92ldGxad68LJZdL17lhWy''),
      bcrypt_compare = (\<lambda>p hashed. p = ''s3cret''),
      current_timestamp = ''2024-05-01 12:00:00''\<rparr>"

text \<open>The store after one registration on a fresh file.\<close>

definition one_user_db :: db where
  "one_user_db =
     snd (app example_env (Register (Some ''Ada'') (Some ''ada@example.com'') (Some ''s3cret''))
            init_db)"

text \<open>
  The store after a sequence of requests, each with what the outside gave in its call.
\<close>

fun run :: "(env \<times> request) list \<Rightarrow> db \<Rightarrow> db" where
  "run [] d = d"
| "run ((E, req) # steps) d = run steps (snd (app E req d))"

fun is_submission :: "request \<Rightarrow> bool" where
  "is_submission (Submit_bid rfpId supplierId amount documents) = True"
| "is_submission _ = False"

text \<open>Two RFPs; three bids on the first, one lower bid on the second.\<close>

definition three_bids_db :: db where
  "three_bids_db =
     run (map (Pair example_env)
       [Create_rfp (Some ''Laptops'') (Some ''Fifty units''),
        Create_rfp (Some ''Chairs'') None,
        Submit_bid (Some 1) (Some 1) (Some 100) (Some ''offer-a.pdf''),
        Submit_bid (Some 2) (Some 1) (Some 10) None,
        Submit_bid (Some 1) (Some 2) (Some 50) (Some ''offer-b.pdf''),
        Submit_bid (Some 1) (Some 3) (Some 75) None])
       init_db"

text \<open>The same store after the bids of the first RFP were evaluated.\<close>

definition evaluated_db :: db where
  "evaluated_db = run [(example_env, Evaluate (Some 1))] three_bids_db"

text \<open>One RFP with three bids, the second submitted without an amount.\<close>

definition unpriced_bid_db :: db where
  "unpriced_bid_db =
     run (map (Pair example_env)
       [Create_rfp (Some ''Laptops'') (Some ''Fifty units''),
        Submit_bid (Some 1) (Some 1) (Some 5) None,
        Submit_bid (Some 1) (Some 2) None None,
        Submit_bid (Some 1) (Some 3) (Some 1) None])
       init_db"

section \<open>Properties\<close>

subsection \<open>What the application answers to each request\<close>

lemmas app_unfold = app_def stack_def routes_def run_layer_def cors_def

lemma sql_eq_Some [simp]: "sql_eq x (Some a) = (x = Some a)"
  by (simp add: sql_eq_def split: option.split)

lemma sql_eq_None [simp]: "sql_eq x None = False"
  by (simp add: sql_eq_def split: option.split)

lemma app_Register:
  "app E (Register name email password) d =
     (case hash E password 10 of
        Inl err \<Rightarrow> (finalhandler (Some err), d)
      | Inr h \<Rightarrow>
          (case insert_user name email h d of
             Inl err \<Rightarrow> (finalhandler (Some err), d)
           | Inr (lastID, d') \<Rightarrow>
               (json_response 201 (JObj [(''message'', JStr ''User registered successfully''),
                                         (''userId'', JNum (of_int lastID))]), d')))"
  by (simp add: app_unfold split: sum.split prod.split)

lemma app_Login:
  "app E (Login email password) d =
     (case find (\<lambda>u. sql_eq (u_email u) email) (users d) of
        None \<Rightarrow> (json_response 401 (JObj [(''message'', JStr ''Invalid credentials'')]), d)
      | Some user \<Rightarrow>
          (case compare E password (u_password user) of
             Inl err \<Rightarrow> (finalhandler (Some err), d)
           | Inr result \<Rightarrow>
               if result
               then (json_response 200 (JObj [(''message'', JStr ''Login successful''),
                                              (''userId'', JNum (of_int (u_id user)))]), d)
               else (json_response 401 (JObj [(''message'', JStr ''Invalid credentials'')]), d)))"
  by (simp add: app_unfold select_user_by_email_def split: sum.split option.split)

lemma app_Onboard:
  "app E (Onboard name registrationNumber address) d =
     (case insert_supplier name registrationNumber address d of
        Inl err \<Rightarrow> (finalhandler (Some err), d)
      | Inr (lastID, d') \<Rightarrow>
          (json_response 201 (JObj [(''message'', JStr ''Supplier onboarded successfully''),
                                    (''supplierId'', JNum (of_int lastID))]), d'))"
  by (simp add: app_unfold split: sum.split prod.split)

lemma app_Submit_bid:
  "app E (Submit_bid rfpId supplierId amount documents) d =
     (case insert_bid (current_timestamp E) rfpId supplierId amount documents d of
        Inl err \<Rightarrow> (finalhandler (Some err), d)
      | Inr (lastID, d') \<Rightarrow>
          (json_response 201 (JObj [(''message'', JStr ''Bid submitted successfully''),
                                    (''bidId'', JNum (of_int lastID))]), d'))"
  by (simp add: app_unfold split: sum.split prod.split)

lemma app_Evaluate:
  "app E (Evaluate rfpId) d =
     (json_response 200 (JObj [(''message'', JStr ''Bids evaluated successfully''),
        (''evaluatedBidsCount'',
         JNum (of_nat (length (filter (\<lambda>b. sql_eq (b_rfpId b) rfpId) (bids d)))))]),
      d\<lparr>bids := map (\<lambda>b. if sql_eq (b_rfpId b) rfpId then b\<lparr>b_status := ''evaluated''\<rparr> else b)
                     (bids d)\<rparr>)"
  by (simp add: app_unfold select_bids_by_rfp_def update_bids_status_def)

lemma app_List_rfps:
  "app E List_rfps d = (json_response 200 (JArr (map rfp_json (rfps d))), d)"
  by (simp add: app_unfold select_rfps_def)

lemma app_Create_rfp:
  "app E (Create_rfp title description) d =
     (json_response 201 (JObj [(''message'', JStr ''RFP created successfully''),
                               (''rfpId'', JNum (of_int (int (Suc (rfps_seq d)))))]),
      d\<lparr>rfps := rfps d @ [\<lparr>r_id = int (Suc (rfps_seq d)), r_title = title,
                            r_description = description, r_createdAt = current_timestamp E\<rparr>],
        rfps_seq := Suc (rfps_seq d)\<rparr>)"
  by (simp add: app_unfold insert_rfp_def Let_def)

lemma app_Winning_bid:
  "app E (Winning_bid rfpId) d =
     (case sort_key b_amount (filter (\<lambda>b. b_rfpId b = Some rfpId) (bids d)) of
        [] \<Rightarrow> (json_response 404 (JObj [(''message'', JStr ''No bids found for this RFP'')]), d)
      | winningBid # _ \<Rightarrow> (json_response 200 (JObj [(''winningBid'', bid_json winningBid)]), d))"
  by (simp add: app_unfold select_winning_bid_def split: list.split)

text \<open>
  A body that does not parse fails in \<^verbatim>\<open>bodyParser.json()\<close>, a layer before the error
  handler of line 91, so that handler answers.
\<close>

lemma app_Malformed_body:
  "app E (Malformed_body msg) d =
     (json_response 500 (JObj [(''message'', JStr ''Internal server error''),
                               (''error'', JStr msg)]), d)"
  by (simp add: app_unfold error_handler_def)

lemma one_user_db_eq:
  "one_user_db =
     init_db\<lparr>users := [\<lparr>u_id = 1, u_name = Some ''Ada'', u_email = Some ''ada@example.com'',
        u_password = ''$2b$10$N9qo8uLOickgx2ZMRZoMyeIjZAgcfl7p92ldGxad68LJZdL17lhWy''\<rparr>],
      users_seq := 1\<rparr>"
  by (simp add: one_user_db_def app_Register hash_def insert_user_def example_env_def init_db_def)

subsection \<open>Failures handed to \<^verbatim>\<open>next\<close> by a route\<close>

lemma route_error_no_status:
  "h \<in> set (routes E) \<Longrightarrow> h req d = (Next_error err, d') \<Longrightarrow> err_status err = None \<and> d' = d"
  by (cases req)
     (auto simp: routes_def hash_def compare_def insert_user_def insert_supplier_def
       insert_bid_def insert_rfp_def select_user_by_email_def select_bids_by_rfp_def
       update_bids_status_def select_rfps_def select_winning_bid_def Let_def
       split: option.splits sum.splits if_splits prod.splits)

lemma route_error_app:
  "h \<in> set (routes E) \<Longrightarrow> h req d = (Next_error err, d') \<Longrightarrow>
     app E req d = (finalhandler (Some err), d')"
  by (cases req)
     (auto simp: routes_def app_Register app_Login app_Onboard app_Submit_bid
       select_user_by_email_def select_bids_by_rfp_def
       update_bids_status_def select_rfps_def select_winning_bid_def insert_rfp_def Let_def
       split: option.splits sum.splits if_splits prod.splits)

text \<open>
  C1. The claim: whenever a handler propagates a failure, the response is 500 with the
  JSON body \<open>{message: 'Internal server error', error: <the failure's message>}\<close>.
  The code: the error handler is registered at line 91, before every route, and
  \<^verbatim>\<open>next(error)\<close> only visits later layers. A failure that a route hands to
  \<^verbatim>\<open>next\<close> therefore reaches Express's built-in final handler: the status is 500, the
  body is the framework's HTML error page, not the JSON envelope.
\<close>

theorem route_failure_gets_default_page:
  assumes "h \<in> set (routes E)" and "h req d = (Next_error err, d')"
  shows "app E req d = (\<lparr>status = 500, body = Default_error_page err\<rparr>, d')
       \<and> body (fst (app E req d)) \<noteq>
           Json (JObj [(''message'', JStr ''Internal server error''),
                       (''error'', JStr (message err))])"
proof -
  have "err_status err = None"
    using assms by (rule route_error_no_status [THEN conjunct1])
  moreover have "app E req d = (finalhandler (Some err), d')"
    using assms by (rule route_error_app)
  ultimately show ?thesis
    by (simp add: finalhandler_def)
qed

text \<open>The failing input: a second registration with an email already stored.\<close>

theorem route_failure_gets_default_page_witness:
  "register example_env \<in> set (routes example_env)
   \<and> register example_env
         (Register (Some ''Bob'') (Some ''ada@example.com'') (Some ''hunter2'')) one_user_db
       = (Next_error (Error ''SQLITE_CONSTRAINT: UNIQUE constraint failed: users.email'' None),
          one_user_db)
   \<and> app example_env
         (Register (Some ''Bob'') (Some ''ada@example.com'') (Some ''hunter2'')) one_user_db
       = (\<lparr>status = 500, body = Default_error_page
            (Error ''SQLITE_CONSTRAINT: UNIQUE constraint failed: users.email'' None)\<rparr>,
          one_user_db)
   \<and> body (fst (app example_env
         (Register (Some ''Bob'') (Some ''ada@example.com'') (Some ''hunter2'')) one_user_db))
       \<noteq> Json (JObj [(''message'', JStr ''Internal server error''),
            (''error'', JStr ''SQLITE_CONSTRAINT: UNIQUE constraint failed: users.email'')])"
proof -
  have h: "register example_env \<in> set (routes example_env)"
    by (simp add: routes_def)
  have r: "register example_env
             (Register (Some ''Bob'') (Some ''ada@example.com'') (Some ''hunter2'')) one_user_db
       = (Next_error (Error ''SQLITE_CONSTRAINT: UNIQUE constraint failed: users.email'' None),
          one_user_db)"
    by (simp add: one_user_db_eq hash_def insert_user_def init_db_def)
  show ?thesis
    using h r route_failure_gets_default_page [OF h r] by simp
qed

subsection \<open>The winning bid\<close>

lemma sort_key_hd_min:
  assumes "xs \<noteq> []"
  shows "\<exists>w ws. sort_key f xs = w # ws \<and> w \<in> set xs \<and> (\<forall>x\<in>set xs. f w \<le> f x)"
proof -
  from assms have "sort_key f xs \<noteq> []"
    by (metis length_0_conv length_sort)
  then obtain w ws where ws: "sort_key f xs = w # ws"
    by (cases "sort_key f xs") auto
  have "sorted (map f (sort_key f xs))" and "set (sort_key f xs) = set xs"
    by simp_all
  with ws show ?thesis
    by auto
qed

lemma insort_key_map_preserve:
  "(\<And>x. f (g x) = f x) \<Longrightarrow> insort_key f (g x) (map g ys) = map g (insort_key f x ys)"
  by (induction ys) simp_all

lemma sort_key_map_preserve:
  "(\<And>x. f (g x) = f x) \<Longrightarrow> sort_key f (map g xs) = map g (sort_key f xs)"
  by (induction xs) (simp_all add: insort_key_map_preserve)

lemma least_of_three:
  fixes a :: "rat option"
  assumes "a \<in> {Some 100, Some 50, Some 75}" and "a \<le> Some 50"
  shows "a = Some 50"
  using assms by auto

lemma three_bids_db_bids:
  "bids three_bids_db =
     [\<lparr>b_id = 1, b_rfpId = Some 1, b_supplierId = Some 1, b_amount = Some 100,
       b_documents = Some ''offer-a.pdf'', b_status = ''pending'',
       b_createdAt = ''2024-05-01 12:00:00''\<rparr>,
      \<lparr>b_id = 2, b_rfpId = Some 2, b_supplierId = Some 1, b_amount = Some 10,
       b_documents = None, b_status = ''pending'', b_createdAt = ''2024-05-01 12:00:00''\<rparr>,
      \<lparr>b_id = 3, b_rfpId = Some 1, b_supplierId = Some 2, b_amount = Some 50,
       b_documents = Some ''offer-b.pdf'', b_status = ''pending'',
       b_createdAt = ''2024-05-01 12:00:00''\<rparr>,
      \<lparr>b_id = 4, b_rfpId = Some 1, b_supplierId = Some 3, b_amount = Some 75,
       b_documents = None, b_status = ''pending'', b_createdAt = ''2024-05-01 12:00:00''\<rparr>]"
  by (simp add: three_bids_db_def app_Create_rfp app_Submit_bid insert_bid_def init_db_def
        example_env_def)

lemma unpriced_bid_db_bids:
  "bids unpriced_bid_db =
     [\<lparr>b_id = 1, b_rfpId = Some 1, b_supplierId = Some 1, b_amount = Some 5,
       b_documents = None, b_status = ''pending'', b_createdAt = ''2024-05-01 12:00:00''\<rparr>,
      \<lparr>b_id = 2, b_rfpId = Some 1, b_supplierId = Some 2, b_amount = None,
       b_documents = None, b_status = ''pending'', b_createdAt = ''2024-05-01 12:00:00''\<rparr>,
      \<lparr>b_id = 3, b_rfpId = Some 1, b_supplierId = Some 3, b_amount = Some 1,
       b_documents = None, b_status = ''pending'', b_createdAt = ''2024-05-01 12:00:00''\<rparr>]"
  by (simp add: unpriced_bid_db_def app_Create_rfp app_Submit_bid insert_bid_def init_db_def
        example_env_def)

text \<open>
  C2, as amended. The claim says the bid returned has the least amount among the RFP's
  bids. The handler sends \<^verbatim>\<open>ORDER BY amount ASC LIMIT 1\<close> and checks no field of a
  submission, so a bid submitted without an amount is stored with \<^verbatim>\<open>NULL\<close>, which the
  store orders before every number: such a bid is returned although priced bids exist.
  What holds: for every RFP identifier that at least one bid carries, the winning-bid
  endpoint answers 200 with a bid of that RFP that is first in the store's ascending order
  of amounts. If some bid of the RFP has no amount, the bid returned has none. If every
  bid of the RFP has an amount, the bid returned has the least of them; so when the
  amounts are 100, 50 and 75, the amount returned is 50. Nothing is asked of the bids'
  status: replacing every status by any other selects the same row.
\<close>

theorem winning_bid_first_in_store_order:
  assumes "\<exists>b\<in>set (bids d). b_rfpId b = Some r"
  shows "\<exists>w. app E (Winning_bid r) d =
         (\<lparr>status = 200, body = Json (JObj [(''winningBid'', JObj
            [(''id'', JNum (of_int (b_id w))),
             (''rfpId'', JNum (of_int r)),
             (''supplierId'', (case b_supplierId w of None \<Rightarrow> JNull | Some k \<Rightarrow> JNum (of_int k))),
             (''amount'', (case b_amount w of None \<Rightarrow> JNull | Some x \<Rightarrow> JNum x)),
             (''documents'', (case b_documents w of None \<Rightarrow> JNull | Some t \<Rightarrow> JStr t)),
             (''status'', JStr (b_status w)),
             (''createdAt'', JStr (b_createdAt w))])])\<rparr>, d)
     \<and> w \<in> set (bids d) \<and> b_rfpId w = Some r
     \<and> (\<forall>b\<in>set (bids d). b_rfpId b = Some r \<longrightarrow> b_amount w \<le> b_amount b)
     \<and> ((\<exists>b\<in>set (bids d). b_rfpId b = Some r \<and> b_amount b = None) \<longrightarrow> b_amount w = None)
     \<and> ((\<forall>b\<in>set (bids d). b_rfpId b = Some r \<longrightarrow> b_amount b \<noteq> None) \<longrightarrow>
          (\<exists>a. b_amount w = Some a
             \<and> (\<forall>b\<in>set (bids d). \<forall>x. b_rfpId b = Some r \<and> b_amount b = Some x \<longrightarrow> a \<le> x)))
     \<and> (set (map b_amount (filter (\<lambda>b. b_rfpId b = Some r) (bids d)))
            = {Some 100, Some 50, Some 75}
          \<longrightarrow> b_amount w = Some 50)
     \<and> (\<forall>s. app E (Winning_bid r) (d\<lparr>bids := map (\<lambda>b. b\<lparr>b_status := s b\<rparr>) (bids d)\<rparr>)
            = (json_response 200 (JObj [(''winningBid'', bid_json (w\<lparr>b_status := s w\<rparr>))]),
               d\<lparr>bids := map (\<lambda>b. b\<lparr>b_status := s b\<rparr>) (bids d)\<rparr>))"
proof -
  let ?xs = "filter (\<lambda>b. b_rfpId b = Some r) (bids d)"
  from assms have "?xs \<noteq> []"
    by (auto simp: filter_empty_conv)
  then obtain w ws where sorted: "sort_key b_amount ?xs = w # ws"
    and mem: "w \<in> set ?xs" and least: "\<forall>x\<in>set ?xs. b_amount w \<le> b_amount x"
    using sort_key_hd_min [of ?xs b_amount] by blast
  from mem have m1: "w \<in> set (bids d)" and m2: "b_rfpId w = Some r"
    by simp_all
  from least have l: "\<forall>b\<in>set (bids d). b_rfpId b = Some r \<longrightarrow> b_amount w \<le> b_amount b"
    by simp
  have resp: "app E (Winning_bid r) d =
         (\<lparr>status = 200, body = Json (JObj [(''winningBid'', JObj
            [(''id'', JNum (of_int (b_id w))),
             (''rfpId'', JNum (of_int r)),
             (''supplierId'', (case b_supplierId w of None \<Rightarrow> JNull | Some k \<Rightarrow> JNum (of_int k))),
             (''amount'', (case b_amount w of None \<Rightarrow> JNull | Some x \<Rightarrow> JNum x)),
             (''documents'', (case b_documents w of None \<Rightarrow> JNull | Some t \<Rightarrow> JStr t)),
             (''status'', JStr (b_status w)),
             (''createdAt'', JStr (b_createdAt w))])])\<rparr>, d)"
    by (simp add: app_Winning_bid sorted json_response_def bid_json_def int_json_def
          real_json_def text_json_def m2)
  have unpriced: "b_amount w = None"
    if "\<exists>b\<in>set (bids d). b_rfpId b = Some r \<and> b_amount b = None"
  proof -
    from that obtain b where "b \<in> set (bids d)" and "b_rfpId b = Some r" and "b_amount b = None"
      by blast
    with l have "b_amount w \<le> None"
      by metis
    then show ?thesis
      by (cases "b_amount w") simp_all
  qed
  have priced: "\<exists>a. b_amount w = Some a
             \<and> (\<forall>b\<in>set (bids d). \<forall>x. b_rfpId b = Some r \<and> b_amount b = Some x \<longrightarrow> a \<le> x)"
    if all: "\<forall>b\<in>set (bids d). b_rfpId b = Some r \<longrightarrow> b_amount b \<noteq> None"
  proof -
    from all m1 m2 obtain a where a: "b_amount w = Some a"
      by blast
    have "a \<le> x" if "b \<in> set (bids d)" and "b_rfpId b = Some r" and "b_amount b = Some x" for b x
    proof -
      from l that have "b_amount w \<le> b_amount b"
        by blast
      with a that(3) show ?thesis
        by simp
    qed
    with a show ?thesis
      by blast
  qed
  have example: "b_amount w = Some 50"
    if eq: "set (map b_amount ?xs) = {Some 100, Some 50, Some 75}"
  proof -
    have "b_amount w \<in> set (map b_amount ?xs)"
      using mem by (simp del: set_filter)
    then have in3: "b_amount w \<in> {Some 100, Some 50, Some 75}"
      unfolding eq .
    have "Some 50 \<in> set (map b_amount ?xs)"
      unfolding eq by simp
    then obtain x where "x \<in> set ?xs" and "b_amount x = Some 50"
      by (auto simp: image_iff)
    with least have "b_amount w \<le> Some 50"
      by metis
    with in3 show ?thesis
      by (rule least_of_three)
  qed
  have status_free: "app E (Winning_bid r) (d\<lparr>bids := map (\<lambda>b. b\<lparr>b_status := s b\<rparr>) (bids d)\<rparr>)
            = (json_response 200 (JObj [(''winningBid'', bid_json (w\<lparr>b_status := s w\<rparr>))]),
               d\<lparr>bids := map (\<lambda>b. b\<lparr>b_status := s b\<rparr>) (bids d)\<rparr>)" for s
  proof -
    have "filter (\<lambda>b. b_rfpId b = Some r) (map (\<lambda>b. b\<lparr>b_status := s b\<rparr>) (bids d))
            = map (\<lambda>b. b\<lparr>b_status := s b\<rparr>) ?xs"
      by (simp add: filter_map comp_def)
    then have "sort_key b_amount
                 (filter (\<lambda>b. b_rfpId b = Some r) (map (\<lambda>b. b\<lparr>b_status := s b\<rparr>) (bids d)))
            = map (\<lambda>b. b\<lparr>b_status := s b\<rparr>) (w # ws)"
      by (simp add: sort_key_map_preserve sorted)
    then show ?thesis
      by (simp add: app_Winning_bid)
  qed
  have unpriced_imp:
    "(\<exists>b\<in>set (bids d). b_rfpId b = Some r \<and> b_amount b = None) \<longrightarrow> b_amount w = None"
    using unpriced by blast
  have priced_imp: "(\<forall>b\<in>set (bids d). b_rfpId b = Some r \<longrightarrow> b_amount b \<noteq> None) \<longrightarrow>
          (\<exists>a. b_amount w = Some a
             \<and> (\<forall>b\<in>set (bids d). \<forall>x. b_rfpId b = Some r \<and> b_amount b = Some x \<longrightarrow> a \<le> x))"
    using priced by blast
  have example_imp: "set (map b_amount ?xs) = {Some 100, Some 50, Some 75} \<longrightarrow> b_amount w = Some 50"
    using example by blast
  have status_all: "\<forall>s. app E (Winning_bid r) (d\<lparr>bids := map (\<lambda>b. b\<lparr>b_status := s b\<rparr>) (bids d)\<rparr>)
            = (json_response 200 (JObj [(''winningBid'', bid_json (w\<lparr>b_status := s w\<rparr>))]),
               d\<lparr>bids := map (\<lambda>b. b\<lparr>b_status := s b\<rparr>) (bids d)\<rparr>)"
    using status_free by blast
  show ?thesis
    using resp m1 m2 l unpriced_imp priced_imp example_imp status_all
    by (intro exI [of _ w] conjI)
qed

text \<open>
  The theorem at the claim's example (a second RFP holds a lower bid), and at a store where
  one bid of the RFP has no amount.
\<close>

theorem winning_bid_first_in_store_order_witness:
  "(\<exists>b\<in>set (bids three_bids_db). b_rfpId b = Some 1)
   \<and> set (map b_amount (filter (\<lambda>b. b_rfpId b = Some 1) (bids three_bids_db)))
        = {Some 100, Some 50, Some 75}
   \<and> (\<exists>w. fst (app example_env (Winning_bid 1) three_bids_db)
              = json_response 200 (JObj [(''winningBid'', bid_json w)])
          \<and> b_id w = 3 \<and> b_amount w = Some 50)
   \<and> (\<exists>b\<in>set (bids unpriced_bid_db). b_rfpId b = Some 1 \<and> b_amount b = None)
   \<and> (\<exists>w. fst (app example_env (Winning_bid 1) unpriced_bid_db)
              = json_response 200 (JObj [(''winningBid'', bid_json w)])
          \<and> b_id w = 2 \<and> b_amount w = None)"
proof -
  have h: "\<exists>b\<in>set (bids three_bids_db). b_rfpId b = Some 1"
    by (simp add: three_bids_db_bids)
  have three: "set (map b_amount (filter (\<lambda>b. b_rfpId b = Some 1) (bids three_bids_db)))
        = {Some 100, Some 50, Some 75}"
    by (simp add: three_bids_db_bids)
  from winning_bid_first_in_store_order [OF h, of example_env] three
  obtain w where w: "w \<in> set (bids three_bids_db)" "b_rfpId w = Some 1" "b_amount w = Some 50"
    and "\<forall>s. app example_env (Winning_bid 1)
               (three_bids_db\<lparr>bids := map (\<lambda>b. b\<lparr>b_status := s b\<rparr>) (bids three_bids_db)\<rparr>)
            = (json_response 200 (JObj [(''winningBid'', bid_json (w\<lparr>b_status := s w\<rparr>))]),
               three_bids_db\<lparr>bids := map (\<lambda>b. b\<lparr>b_status := s b\<rparr>) (bids three_bids_db)\<rparr>)"
    by blast
  from this(4) [rule_format, of b_status]
  have "fst (app example_env (Winning_bid 1) three_bids_db)
              = json_response 200 (JObj [(''winningBid'', bid_json w)])"
    by simp
  moreover from w have "b_id w = 3"
    by (auto simp: three_bids_db_bids)
  ultimately have priced: "\<exists>w. fst (app example_env (Winning_bid 1) three_bids_db)
              = json_response 200 (JObj [(''winningBid'', bid_json w)])
          \<and> b_id w = 3 \<and> b_amount w = Some 50"
    using w by blast
  have h': "\<exists>b\<in>set (bids unpriced_bid_db). b_rfpId b = Some 1"
    by (simp add: unpriced_bid_db_bids)
  have none: "\<exists>b\<in>set (bids unpriced_bid_db). b_rfpId b = Some 1 \<and> b_amount b = None"
    by (simp add: unpriced_bid_db_bids)
  from winning_bid_first_in_store_order [OF h', of example_env] none
  obtain v where v: "v \<in> set (bids unpriced_bid_db)" "b_rfpId v = Some 1" "b_amount v = None"
    and "\<forall>s. app example_env (Winning_bid 1)
               (unpriced_bid_db\<lparr>bids := map (\<lambda>b. b\<lparr>b_status := s b\<rparr>) (bids unpriced_bid_db)\<rparr>)
            = (json_response 200 (JObj [(''winningBid'', bid_json (v\<lparr>b_status := s v\<rparr>))]),
               unpriced_bid_db\<lparr>bids := map (\<lambda>b. b\<lparr>b_status := s b\<rparr>) (bids unpriced_bid_db)\<rparr>)"
    by blast
  from this(4) [rule_format, of b_status]
  have "fst (app example_env (Winning_bid 1) unpriced_bid_db)
              = json_response 200 (JObj [(''winningBid'', bid_json v)])"
    by simp
  moreover from v have "b_id v = 2"
    by (auto simp: unpriced_bid_db_bids)
  ultimately have unpriced: "\<exists>w. fst (app example_env (Winning_bid 1) unpriced_bid_db)
              = json_response 200 (JObj [(''winningBid'', bid_json w)])
          \<and> b_id w = 2 \<and> b_amount w = None"
    using v by blast
  from h three priced none unpriced show ?thesis
    by (intro conjI)
qed

text \<open>
  The claim as stated fails: the RFP's bids have the amounts 5, none and 1, and the
  endpoint returns the bid without an amount (\<open>amount: null\<close>), not the bid of amount 1.
\<close>

theorem winning_bid_unpriced_counterexample:
  "map b_amount (filter (\<lambda>b. b_rfpId b = Some 1) (bids unpriced_bid_db)) = [Some 5, None, Some 1]
   \<and> app example_env (Winning_bid 1) unpriced_bid_db =
       (\<lparr>status = 200, body = Json (JObj [(''winningBid'', JObj
          [(''id'', JNum 2), (''rfpId'', JNum 1), (''supplierId'', JNum 2), (''amount'', JNull),
           (''documents'', JNull), (''status'', JStr ''pending''),
           (''createdAt'', JStr ''2024-05-01 12:00:00'')])])\<rparr>, unpriced_bid_db)"
  by (simp add: unpriced_bid_db_bids app_Winning_bid json_response_def bid_json_def
        int_json_def real_json_def text_json_def)

subsection \<open>Evaluation\<close>

text \<open>
  C3. If the bids table holds exactly \<open>N\<close> bids of an RFP when the handler fetches them,
  the evaluation endpoint answers 200 with \<open>evaluatedBidsCount = N\<close>, and afterwards the
  bids of that RFP are those same \<open>N\<close> rows with status \<open>evaluated\<close>, whatever their
  amount, documents or earlier status were.
\<close>

theorem evaluate_marks_every_bid:
  assumes "length (filter (\<lambda>b. b_rfpId b = Some r) (bids d)) = N"
  shows "\<exists>d'. app E (Evaluate (Some r)) d =
           (json_response 200 (JObj [(''message'', JStr ''Bids evaluated successfully''),
                                     (''evaluatedBidsCount'', JNum (of_nat N))]), d')
     \<and> filter (\<lambda>b. b_rfpId b = Some r) (bids d')
         = map (\<lambda>b. b\<lparr>b_status := ''evaluated''\<rparr>) (filter (\<lambda>b. b_rfpId b = Some r) (bids d))
     \<and> length (filter (\<lambda>b. b_rfpId b = Some r) (bids d')) = N
     \<and> (\<forall>b\<in>set (bids d'). b_rfpId b = Some r \<longrightarrow> b_status b = ''evaluated'')"
proof -
  let ?d' = "d\<lparr>bids := map (\<lambda>b. if b_rfpId b = Some r then b\<lparr>b_status := ''evaluated''\<rparr> else b)
                     (bids d)\<rparr>"
  have resp: "app E (Evaluate (Some r)) d =
           (json_response 200 (JObj [(''message'', JStr ''Bids evaluated successfully''),
                                     (''evaluatedBidsCount'', JNum (of_nat N))]), ?d')"
    using assms by (simp add: app_Evaluate)
  have same: "filter (\<lambda>b. b_rfpId b = Some r) (bids ?d')
         = map (\<lambda>b. b\<lparr>b_status := ''evaluated''\<rparr>) (filter (\<lambda>b. b_rfpId b = Some r) (bids d))"
    by (simp add: filter_map comp_def if_distrib cong: if_cong)
  have count: "length (filter (\<lambda>b. b_rfpId b = Some r) (bids ?d')) = N"
    unfolding same using assms by simp
  have all: "\<forall>b\<in>set (bids ?d'). b_rfpId b = Some r \<longrightarrow> b_status b = ''evaluated''"
    by auto
  show ?thesis
    using resp same count all by (intro exI [of _ ?d'] conjI)
qed

theorem evaluate_marks_every_bid_witness:
  "length (filter (\<lambda>b. b_rfpId b = Some 1) (bids three_bids_db)) = 3
   \<and> (\<exists>d'. app example_env (Evaluate (Some 1)) three_bids_db =
           (json_response 200 (JObj [(''message'', JStr ''Bids evaluated successfully''),
                                     (''evaluatedBidsCount'', JNum 3)]), d')
        \<and> map b_id (filter (\<lambda>b. b_rfpId b = Some 1) (bids d')) = [1, 3, 4]
        \<and> map b_status (filter (\<lambda>b. b_rfpId b = Some 1) (bids d'))
            = [''evaluated'', ''evaluated'', ''evaluated''])"
proof -
  have h: "length (filter (\<lambda>b. b_rfpId b = Some 1) (bids three_bids_db)) = 3"
    by (simp add: three_bids_db_bids)
  from evaluate_marks_every_bid [OF h, of example_env]
  obtain d' where "app example_env (Evaluate (Some 1)) three_bids_db =
           (json_response 200 (JObj [(''message'', JStr ''Bids evaluated successfully''),
                                     (''evaluatedBidsCount'', JNum (of_nat 3))]), d')"
    and "filter (\<lambda>b. b_rfpId b = Some 1) (bids d')
         = map (\<lambda>b. b\<lparr>b_status := ''evaluated''\<rparr>)
             (filter (\<lambda>b. b_rfpId b = Some 1) (bids three_bids_db))"
    by blast
  then show ?thesis
    using h by (intro conjI exI [of _ d']) (simp_all add: three_bids_db_bids)
qed

lemma update_status_bids:
  "bids (snd (app E (Evaluate rfpId) d))
     = map (\<lambda>b. if sql_eq (b_rfpId b) rfpId then b\<lparr>b_status := ''evaluated''\<rparr> else b) (bids d)"
  by (simp add: app_Evaluate)

lemma bids_unless_submission:
  assumes "\<not> is_submission req"
  shows "bids (snd (app E req d)) = bids d
     \<or> (\<exists>r. bids (snd (app E req d))
           = map (\<lambda>b. if sql_eq (b_rfpId b) r then b\<lparr>b_status := ''evaluated''\<rparr> else b) (bids d))"
proof (cases req)
  case (Register name email password)
  then show ?thesis
    by (auto simp: app_Register insert_user_def Let_def split: sum.split)
next
  case (Login email password)
  then show ?thesis
    by (simp add: app_Login split: option.split sum.split)
next
  case (Onboard name reg address)
  then show ?thesis
    by (auto simp: app_Onboard insert_supplier_def Let_def split: sum.split)
next
  case (Submit_bid r s a docs)
  with assms show ?thesis
    by simp
next
  case (Evaluate r)
  then show ?thesis
    by (auto simp: update_status_bids)
next
  case List_rfps
  then show ?thesis
    by (simp add: app_List_rfps)
next
  case (Create_rfp title description)
  then show ?thesis
    by (simp add: app_Create_rfp)
next
  case (Winning_bid r)
  then show ?thesis
    by (simp add: app_Winning_bid split: list.split)
next
  case (Malformed_body msg)
  then show ?thesis
    by (simp add: app_Malformed_body)
qed

lemma evaluated_all_map:
  "evaluated_all rfpId d \<Longrightarrow>
     bids d' = map (\<lambda>b. if sql_eq (b_rfpId b) r then b\<lparr>b_status := ''evaluated''\<rparr> else b) (bids d)
     \<Longrightarrow> evaluated_all rfpId d'"
  by (auto simp: evaluated_all_def list_all_iff)

lemma count_bids_map:
  "bids d' = map (\<lambda>b. if sql_eq (b_rfpId b) r then b\<lparr>b_status := ''evaluated''\<rparr> else b) (bids d)
     \<Longrightarrow> count_bids rfpId d' = count_bids rfpId d"
  by (simp add: count_bids_def filter_map comp_def if_distrib cong: if_cong)

lemma evaluated_all_after: "evaluated_all rfpId (snd (app E (Evaluate rfpId) d))"
  by (auto simp: evaluated_all_def list_all_iff update_status_bids)

lemma evaluated_all_app:
  assumes "\<not> is_submission req" and "evaluated_all rfpId d"
  shows "evaluated_all rfpId (snd (app E req d))"
  using bids_unless_submission [OF assms(1), of E d] assms(2)
  by (auto simp: evaluated_all_def list_all_iff)

lemma count_bids_app:
  assumes "\<not> is_submission req"
  shows "count_bids rfpId (snd (app E req d)) = count_bids rfpId d"
  using bids_unless_submission [OF assms, of E d]
  by (auto simp: count_bids_def dest: count_bids_map [unfolded count_bids_def])

lemma evaluated_all_run:
  "list_all (\<lambda>(E, req). \<not> is_submission req) steps \<Longrightarrow> evaluated_all rfpId d \<Longrightarrow>
     evaluated_all rfpId (run steps d)"
  by (induction steps arbitrary: d) (auto simp: evaluated_all_app)

lemma count_bids_run:
  "list_all (\<lambda>(E, req). \<not> is_submission req) steps \<Longrightarrow>
     count_bids rfpId (run steps d) = count_bids rfpId d"
  by (induction steps arbitrary: d) (auto simp: count_bids_app)

lemma evaluate_again:
  assumes "evaluated_all rfpId d"
  shows "app E (Evaluate rfpId) d
          = (json_response 200 (JObj [(''message'', JStr ''Bids evaluated successfully''),
               (''evaluatedBidsCount'', JNum (of_nat (count_bids rfpId d)))]), d)"
proof -
  from assms have "map (\<lambda>b. if sql_eq (b_rfpId b) rfpId then b\<lparr>b_status := ''evaluated''\<rparr> else b)
      (bids d) = bids d"
    by (auto simp: evaluated_all_def list_all_iff map_idI)
  then show ?thesis
    by (simp add: app_Evaluate count_bids_def)
qed

text \<open>
  C4. After an evaluation of an RFP, and after any further requests none of which submits
  a bid, evaluating the RFP again gives the response of the first run (200, the same
  count) and leaves the store as it finds it, with every bid of the RFP at status
  \<open>evaluated\<close>.
\<close>

theorem evaluate_idempotent:
  assumes "list_all (\<lambda>(E, req). \<not> is_submission req) steps"
  shows "app E' (Evaluate rfpId) (run steps (snd (app E (Evaluate rfpId) d)))
           = (fst (app E (Evaluate rfpId) d), run steps (snd (app E (Evaluate rfpId) d)))
   \<and> status (fst (app E (Evaluate rfpId) d)) = 200
   \<and> (\<forall>b\<in>set (bids (run steps (snd (app E (Evaluate rfpId) d)))).
         sql_eq (b_rfpId b) rfpId \<longrightarrow> b_status b = ''evaluated'')"
proof -
  let ?d1 = "snd (app E (Evaluate rfpId) d)"
  let ?d2 = "run steps ?d1"
  have "evaluated_all rfpId ?d1"
    by (rule evaluated_all_after)
  with assms have marked: "evaluated_all rfpId ?d2"
    by (rule evaluated_all_run)
  have "count_bids rfpId ?d2 = count_bids rfpId ?d1"
    using assms by (rule count_bids_run)
  also have "\<dots> = count_bids rfpId d"
    by (rule count_bids_app) simp
  finally have count: "count_bids rfpId ?d2 = count_bids rfpId d" .
  have "app E' (Evaluate rfpId) ?d2
          = (json_response 200 (JObj [(''message'', JStr ''Bids evaluated successfully''),
               (''evaluatedBidsCount'', JNum (of_nat (count_bids rfpId ?d2)))]), ?d2)"
    using marked by (rule evaluate_again)
  also have "\<dots> = (fst (app E (Evaluate rfpId) d), ?d2)"
    unfolding count by (simp add: app_Evaluate count_bids_def)
  finally have again: "app E' (Evaluate rfpId) ?d2 = (fst (app E (Evaluate rfpId) d), ?d2)" .
  have ok: "status (fst (app E (Evaluate rfpId) d)) = 200"
    by (simp add: app_Evaluate json_response_def)
  from marked have all: "\<forall>b\<in>set (bids ?d2). sql_eq (b_rfpId b) rfpId \<longrightarrow> b_status b = ''evaluated''"
    by (simp add: evaluated_all_def list_all_iff)
  from again ok all show ?thesis
    by (intro conjI)
qed

theorem evaluate_idempotent_witness:
  "list_all (\<lambda>(E, req). \<not> is_submission req)
     [(example_env, Register (Some ''Ada'') (Some ''ada@example.com'') (Some ''s3cret'')),
      (example_env, Evaluate (Some 2))]
   \<and> app example_env (Evaluate (Some 1)) three_bids_db
     = (json_response 200 (JObj [(''message'', JStr ''Bids evaluated successfully''),
                                 (''evaluatedBidsCount'', JNum 3)]), evaluated_db)
   \<and> app example_env (Evaluate (Some 1)) evaluated_db
     = (json_response 200 (JObj [(''message'', JStr ''Bids evaluated successfully''),
                                 (''evaluatedBidsCount'', JNum 3)]), evaluated_db)
   \<and> fst (app example_env (Evaluate (Some 1))
        (run [(example_env, Register (Some ''Ada'') (Some ''ada@example.com'') (Some ''s3cret'')),
              (example_env, Evaluate (Some 2))] evaluated_db))
     = json_response 200 (JObj [(''message'', JStr ''Bids evaluated successfully''),
                                (''evaluatedBidsCount'', JNum 3)])
   \<and> map b_status (bids evaluated_db) = [''evaluated'', ''pending'', ''evaluated'', ''evaluated'']"
proof -
  let ?steps = "[(example_env, Register (Some ''Ada'') (Some ''ada@example.com'') (Some ''s3cret'')),
      (example_env, Evaluate (Some 2))]"
  have h0: "list_all (\<lambda>(E, req). \<not> is_submission req) []"
    by simp
  have h: "list_all (\<lambda>(E, req). \<not> is_submission req) ?steps"
    by simp
  have first: "app example_env (Evaluate (Some 1)) three_bids_db
     = (json_response 200 (JObj [(''message'', JStr ''Bids evaluated successfully''),
                                 (''evaluatedBidsCount'', JNum 3)]), evaluated_db)"
    by (simp add: evaluated_db_def app_Evaluate three_bids_db_bids)
  have statuses: "map b_status (bids evaluated_db)
      = [''evaluated'', ''pending'', ''evaluated'', ''evaluated'']"
    by (simp add: evaluated_db_def app_Evaluate three_bids_db_bids)
  have second: "app example_env (Evaluate (Some 1)) evaluated_db
     = (json_response 200 (JObj [(''message'', JStr ''Bids evaluated successfully''),
                                 (''evaluatedBidsCount'', JNum 3)]), evaluated_db)"
    using evaluate_idempotent [OF h0, of example_env "Some 1" example_env three_bids_db]
    by (simp add: first)
  have later: "fst (app example_env (Evaluate (Some 1)) (run ?steps evaluated_db))
     = json_response 200 (JObj [(''message'', JStr ''Bids evaluated successfully''),
                                (''evaluatedBidsCount'', JNum 3)])"
    using evaluate_idempotent [OF h, of example_env "Some 1" example_env three_bids_db]
    by (simp only: first fst_conv snd_conv)
  from h first second later statuses show ?thesis
    by (intro conjI)
qed

text \<open>
  C10. Evaluation changes nothing but the bids table, keeps its rows in place, leaves a
  bid of any other RFP as it was, and on a bid of the given RFP leaves id, rfpId,
  supplierId, amount, documents and createdAt as they were; the users, suppliers and rfps
  tables are untouched.
\<close>

theorem evaluate_frame:
  assumes "app E (Evaluate rfpId) d = (res, d')"
  shows "users d' = users d \<and> users_seq d' = users_seq d
     \<and> suppliers d' = suppliers d \<and> suppliers_seq d' = suppliers_seq d
     \<and> rfps d' = rfps d \<and> rfps_seq d' = rfps_seq d
     \<and> bids_seq d' = bids_seq d \<and> foreign_keys d' = foreign_keys d
     \<and> length (bids d') = length (bids d)
     \<and> (\<forall>i<length (bids d).
          (\<not> sql_eq (b_rfpId (bids d ! i)) rfpId \<longrightarrow> bids d' ! i = bids d ! i)
        \<and> b_id (bids d' ! i) = b_id (bids d ! i)
        \<and> b_rfpId (bids d' ! i) = b_rfpId (bids d ! i)
        \<and> b_supplierId (bids d' ! i) = b_supplierId (bids d ! i)
        \<and> b_amount (bids d' ! i) = b_amount (bids d ! i)
        \<and> b_documents (bids d' ! i) = b_documents (bids d ! i)
        \<and> b_createdAt (bids d' ! i) = b_createdAt (bids d ! i))"
proof -
  from assms have d': "d' = d\<lparr>bids := map (\<lambda>b. if sql_eq (b_rfpId b) rfpId
                                   then b\<lparr>b_status := ''evaluated''\<rparr> else b) (bids d)\<rparr>"
    by (simp add: app_Evaluate)
  show ?thesis
    unfolding d' by simp
qed

theorem evaluate_frame_witness:
  "app example_env (Evaluate (Some 1)) three_bids_db
     = (json_response 200 (JObj [(''message'', JStr ''Bids evaluated successfully''),
                                 (''evaluatedBidsCount'', JNum 3)]), evaluated_db)
   \<and> users evaluated_db = users three_bids_db
   \<and> suppliers evaluated_db = suppliers three_bids_db
   \<and> rfps evaluated_db = rfps three_bids_db
   \<and> bids evaluated_db ! 1 = bids three_bids_db ! 1
   \<and> map b_status (bids three_bids_db) = [''pending'', ''pending'', ''pending'', ''pending'']
   \<and> map b_status (bids evaluated_db) = [''evaluated'', ''pending'', ''evaluated'', ''evaluated'']
   \<and> map b_amount (bids evaluated_db) = map b_amount (bids three_bids_db)
   \<and> map b_id (bids evaluated_db) = map b_id (bids three_bids_db)"
proof -
  have run: "app example_env (Evaluate (Some 1)) three_bids_db
     = (json_response 200 (JObj [(''message'', JStr ''Bids evaluated successfully''),
                                 (''evaluatedBidsCount'', JNum 3)]), evaluated_db)"
    by (simp add: evaluated_db_def app_Evaluate three_bids_db_bids)
  have bids: "map b_status (bids three_bids_db) = [''pending'', ''pending'', ''pending'', ''pending'']"
    "map b_status (bids evaluated_db) = [''evaluated'', ''pending'', ''evaluated'', ''evaluated'']"
    "map b_amount (bids evaluated_db) = map b_amount (bids three_bids_db)"
    "map b_id (bids evaluated_db) = map b_id (bids three_bids_db)"
    by (simp_all add: evaluated_db_def app_Evaluate three_bids_db_bids)
  have len: "1 < length (bids three_bids_db)"
    by (simp add: three_bids_db_bids)
  have other: "\<not> sql_eq (b_rfpId (bids three_bids_db ! 1)) (Some 1)"
    by (simp add: three_bids_db_bids)
  from evaluate_frame [OF run] len other
  have "users evaluated_db = users three_bids_db" "suppliers evaluated_db = suppliers three_bids_db"
    "rfps evaluated_db = rfps three_bids_db" "bids evaluated_db ! 1 = bids three_bids_db ! 1"
    by blast+
  with run bids show ?thesis
    by simp
qed

subsection \<open>No winning bid\<close>

text \<open>
  C6. For an RFP identifier that no bid carries, the winning-bid endpoint answers 404.
\<close>

theorem winning_bid_none:
  assumes "\<forall>b\<in>set (bids d). b_rfpId b \<noteq> Some r"
  shows "app E (Winning_bid r) d
           = (json_response 404 (JObj [(''message'', JStr ''No bids found for this RFP'')]), d)
       \<and> status (fst (app E (Winning_bid r) d)) = 404"
proof -
  from assms have "filter (\<lambda>b. b_rfpId b = Some r) (bids d) = []"
    by (simp add: filter_empty_conv)
  then show ?thesis
    by (simp add: app_Winning_bid json_response_def)
qed

theorem winning_bid_none_witness:
  "(\<exists>b\<in>set (bids three_bids_db). b_rfpId b = Some 2)
   \<and> list_all (\<lambda>b. b_rfpId b \<noteq> Some 3) (bids three_bids_db)
   \<and> app example_env (Winning_bid 3) three_bids_db
           = (json_response 404 (JObj [(''message'', JStr ''No bids found for this RFP'')]),
              three_bids_db)"
proof -
  have h: "\<forall>b\<in>set (bids three_bids_db). b_rfpId b \<noteq> Some 3"
    by (simp add: three_bids_db_bids)
  show ?thesis
    using h winning_bid_none [OF h, of example_env] by (simp add: list_all_iff three_bids_db_bids)
qed

subsection \<open>What holds in every reachable state\<close>

lemma invariant_init: "invariant init_db"
  by (simp add: invariant_def init_db_def)

lemma invariant_insert_user:
  "invariant d \<Longrightarrow> insert_user name email h d = Inr (k, d') \<Longrightarrow> invariant d'"
  by (cases email)
     (auto simp: invariant_def insert_user_def Let_def list_ex_iff filter_empty_conv
       split: if_splits)

lemma invariant_insert_supplier:
  "invariant d \<Longrightarrow> insert_supplier name reg address d = Inr (k, d') \<Longrightarrow> invariant d'"
  by (auto simp: invariant_def insert_supplier_def Let_def split: if_splits)

lemma invariant_insert_bid:
  "invariant d \<Longrightarrow> insert_bid now r s a docs d = Inr (k, d') \<Longrightarrow> invariant d'"
  by (fastforce simp: invariant_def insert_bid_def Let_def split: if_splits)

lemma invariant_app: "invariant d \<Longrightarrow> invariant (snd (app E req d))"
proof (cases req)
  case (Register name email password)
  then show "invariant d \<Longrightarrow> ?thesis"
    by (auto simp: app_Register split: sum.split dest: invariant_insert_user)
next
  case (Login email password)
  then show "invariant d \<Longrightarrow> ?thesis"
    by (simp add: app_Login split: option.split sum.split)
next
  case (Onboard name reg address)
  then show "invariant d \<Longrightarrow> ?thesis"
    by (auto simp: app_Onboard split: sum.split dest: invariant_insert_supplier)
next
  case (Submit_bid r s a docs)
  then show "invariant d \<Longrightarrow> ?thesis"
    by (auto simp: app_Submit_bid split: sum.split dest: invariant_insert_bid)
next
  case (Evaluate r)
  then show "invariant d \<Longrightarrow> ?thesis"
    by (auto simp: app_Evaluate invariant_def)
next
  case List_rfps
  then show "invariant d \<Longrightarrow> ?thesis"
    by (simp add: app_List_rfps)
next
  case (Create_rfp title description)
  then show "invariant d \<Longrightarrow> ?thesis"
    by (simp add: app_Create_rfp invariant_def)
next
  case (Winning_bid r)
  then show "invariant d \<Longrightarrow> ?thesis"
    by (simp add: app_Winning_bid split: list.split)
next
  case (Malformed_body msg)
  then show "invariant d \<Longrightarrow> ?thesis"
    by (simp add: app_Malformed_body)
qed

lemma reachable_invariant: "reachable d \<Longrightarrow> invariant d"
  by (induction rule: reachable.induct) (simp_all add: invariant_init invariant_app)

lemma reachable_run: "reachable d \<Longrightarrow> reachable (run steps d)"
  by (induction steps arbitrary: d) (auto simp: reachable.request)




lemma insert_user_fresh:
  assumes "\<forall>u\<in>set (users d). u_email u \<noteq> Some e"
  shows "\<exists>k d1. insert_user name (Some e) h d = Inr (k, d1) \<and> 0 < k
     \<and> list_ex (\<lambda>u. sql_eq (u_email u) (Some e)) (users d1)
     \<and> length (filter (\<lambda>u. u_email u = Some e) (users d1)) = 1"
  using assms by (simp add: insert_user_def Let_def list_ex_iff filter_empty_conv)

lemma insert_user_taken:
  "list_ex (\<lambda>u. sql_eq (u_email u) email) (users d) \<Longrightarrow>
     insert_user name email h d
       = Inl (Error ''SQLITE_CONSTRAINT: UNIQUE constraint failed: users.email'' None)"
  by (simp add: insert_user_def)

subsection \<open>Registration and login\<close>




text \<open>
  What the handlers do with a password is fixed by the two library calls: registration
  stores the value \<^verbatim>\<open>bcrypt.hash\<close> returned, and login accepts exactly what
  \<^verbatim>\<open>bcrypt.compare\<close> accepts against the stored value. How the two library functions
  relate to each other and to the plaintext is a property of the library.
\<close>

lemma registration_stores_hash:
  assumes "app E (Register name email (Some p)) d = (res, d')" and "status res = 201"
  shows "users d' = users d @
           [\<lparr>u_id = int (Suc (users_seq d)), u_name = name, u_email = email,
             u_password = bcrypt_hash E p 10\<rparr>]"
  using assms
  by (auto simp: app_Register hash_def insert_user_def finalhandler_def Let_def
        split: if_splits)

text \<open>
  C7. Registering an email that no row holds succeeds with 201 and a positive integer
  identifier. A second registration with that email fails: the insert violates the
  \<^verbatim>\<open>UNIQUE\<close> constraint, the handler hands the error to \<^verbatim>\<open>next\<close>, the response is 500
  and no row is added. In every reachable state each email is held by at most one row.
\<close>

theorem duplicate_email_rejected:
  assumes "reachable d" and "\<forall>u\<in>set (users d). u_email u \<noteq> Some e"
  shows "\<exists>k d1.
       app E (Register name (Some e) (Some p)) d
         = (json_response 201 (JObj [(''message'', JStr ''User registered successfully''),
                                     (''userId'', JNum (of_int k))]), d1)
     \<and> 0 < k
     \<and> register E' (Register name' (Some e) (Some p')) d1
         = (Next_error (Error ''SQLITE_CONSTRAINT: UNIQUE constraint failed: users.email'' None), d1)
     \<and> (\<exists>err. app E' (Register name' (Some e) password') d1
                 = (\<lparr>status = 500, body = Default_error_page err\<rparr>, d1))
     \<and> length (filter (\<lambda>u. u_email u = Some e) (users d1)) = 1
     \<and> (\<forall>e'. length (filter (\<lambda>u. u_email u = Some e') (users d1)) \<le> 1)
     \<and> (\<forall>e'. length (filter (\<lambda>u. u_email u = Some e') (users d)) \<le> 1)"
proof -
  from assms(2) obtain k d1
    where ins: "insert_user name (Some e) (bcrypt_hash E p 10) d = Inr (k, d1)"
      and pos: "0 < k"
      and taken: "list_ex (\<lambda>u. sql_eq (u_email u) (Some e)) (users d1)"
      and one: "length (filter (\<lambda>u. u_email u = Some e) (users d1)) = 1"
    using insert_user_fresh by blast
  from ins have first: "app E (Register name (Some e) (Some p)) d
         = (json_response 201 (JObj [(''message'', JStr ''User registered successfully''),
                                     (''userId'', JNum (of_int k))]), d1)"
    by (simp add: app_Register hash_def)
  note dup = insert_user_taken [OF taken]
  have second_handler: "register E' (Register name' (Some e) (Some p')) d1
         = (Next_error (Error ''SQLITE_CONSTRAINT: UNIQUE constraint failed: users.email'' None), d1)"
    by (simp add: hash_def dup)
  have second: "\<exists>err. app E' (Register name' (Some e) password') d1
                 = (\<lparr>status = 500, body = Default_error_page err\<rparr>, d1)"
    by (cases password') (simp_all add: app_Register hash_def dup finalhandler_def)
  from assms(1) have inv: "invariant d"
    by (rule reachable_invariant)
  then have before: "\<forall>e'. length (filter (\<lambda>u. u_email u = Some e') (users d)) \<le> 1"
    by (simp add: invariant_def)
  from inv ins have "invariant d1"
    by (rule invariant_insert_user)
  then have after: "\<forall>e'. length (filter (\<lambda>u. u_email u = Some e') (users d1)) \<le> 1"
    by (simp add: invariant_def)
  show ?thesis
    using first pos second_handler second one after before
    by (intro exI [of _ k] exI [of _ d1] conjI)
qed

theorem duplicate_email_rejected_witness:
  "reachable init_db \<and> users init_db = []
   \<and> app example_env (Register (Some ''Ada'') (Some ''ada@example.com'') (Some ''s3cret'')) init_db
       = (json_response 201 (JObj [(''message'', JStr ''User registered successfully''),
                                   (''userId'', JNum 1)]), one_user_db)
   \<and> status (fst (app example_env
         (Register (Some ''Bob'') (Some ''ada@example.com'') (Some ''hunter2'')) one_user_db)) = 500
   \<and> snd (app example_env
         (Register (Some ''Bob'') (Some ''ada@example.com'') (Some ''hunter2'')) one_user_db)
       = one_user_db
   \<and> map u_email (users one_user_db) = [Some ''ada@example.com'']"
proof -
  have h: "\<forall>u\<in>set (users init_db). u_email u \<noteq> Some ''ada@example.com''"
    by (simp add: init_db_def)
  have first: "app example_env (Register (Some ''Ada'') (Some ''ada@example.com'') (Some ''s3cret'')) init_db
       = (json_response 201 (JObj [(''message'', JStr ''User registered successfully''),
                                   (''userId'', JNum 1)]), one_user_db)"
    by (simp add: one_user_db_eq app_Register hash_def insert_user_def example_env_def init_db_def)
  from duplicate_email_rejected [OF reachable.fresh h,
      of example_env "Some ''Ada''" "''s3cret''" example_env "Some ''Bob''" "''hunter2''"
         "Some ''hunter2''"]
  obtain k d1 err where "app example_env (Register (Some ''Ada'') (Some ''ada@example.com'') (Some ''s3cret'')) init_db
         = (json_response 201 (JObj [(''message'', JStr ''User registered successfully''),
                                     (''userId'', JNum (of_int k))]), d1)"
    and "app example_env (Register (Some ''Bob'') (Some ''ada@example.com'') (Some ''hunter2'')) d1
                 = (\<lparr>status = 500, body = Default_error_page err\<rparr>, d1)"
    by blast
  with first have "app example_env (Register (Some ''Bob'') (Some ''ada@example.com'') (Some ''hunter2'')) one_user_db
                 = (\<lparr>status = 500, body = Default_error_page err\<rparr>, one_user_db)"
    by simp
  then show ?thesis
    using first reachable.fresh by (simp add: one_user_db_eq init_db_def)
qed

subsection \<open>Bid submission\<close>

text \<open>
  C9. In every reachable state the \<^verbatim>\<open>foreign_keys\<close> pragma is off, and submitting a bid
  succeeds with 201 and an identifier that no stored bid has, for any rfpId and supplierId,
  whether or not an RFP or a supplier with that identifier exists.
\<close>

theorem submit_bid_unchecked:
  assumes "reachable d"
  shows "app E (Submit_bid rfpId supplierId amount documents) d
           = (json_response 201 (JObj [(''message'', JStr ''Bid submitted successfully''),
                                       (''bidId'', JNum (of_int (int (Suc (bids_seq d)))))]),
              d\<lparr>bids := bids d @
                   [\<lparr>b_id = int (Suc (bids_seq d)), b_rfpId = rfpId, b_supplierId = supplierId,
                     b_amount = amount, b_documents = documents, b_status = ''pending'',
                     b_createdAt = current_timestamp E\<rparr>],
                bids_seq := Suc (bids_seq d)\<rparr>)
       \<and> int (Suc (bids_seq d)) \<notin> b_id ` set (bids d)
       \<and> \<not> foreign_keys d"
proof -
  from assms have inv: "invariant d"
    by (rule reachable_invariant)
  then have off: "\<not> foreign_keys d"
    by (simp add: invariant_def)
  from inv have "\<forall>b\<in>set (bids d). b_id b \<le> int (bids_seq d)"
    by (simp add: invariant_def)
  then have new: "int (Suc (bids_seq d)) \<notin> b_id ` set (bids d)"
    by fastforce
  from off have "insert_bid (current_timestamp E) rfpId supplierId amount documents d
           = Inr (int (Suc (bids_seq d)),
              d\<lparr>bids := bids d @
                   [\<lparr>b_id = int (Suc (bids_seq d)), b_rfpId = rfpId, b_supplierId = supplierId,
                     b_amount = amount, b_documents = documents, b_status = ''pending'',
                     b_createdAt = current_timestamp E\<rparr>],
                bids_seq := Suc (bids_seq d)\<rparr>)"
    by (simp add: insert_bid_def Let_def)
  then have "app E (Submit_bid rfpId supplierId amount documents) d
           = (json_response 201 (JObj [(''message'', JStr ''Bid submitted successfully''),
                                       (''bidId'', JNum (of_int (int (Suc (bids_seq d)))))]),
              d\<lparr>bids := bids d @
                   [\<lparr>b_id = int (Suc (bids_seq d)), b_rfpId = rfpId, b_supplierId = supplierId,
                     b_amount = amount, b_documents = documents, b_status = ''pending'',
                     b_createdAt = current_timestamp E\<rparr>],
                bids_seq := Suc (bids_seq d)\<rparr>)"
    by (simp add: app_Submit_bid)
  with new off show ?thesis
    by (intro conjI)
qed

theorem submit_bid_unchecked_witness:
  "reachable init_db \<and> rfps init_db = [] \<and> suppliers init_db = []
   \<and> app example_env (Submit_bid (Some 999) (Some 777) (Some 10) None) init_db
       = (json_response 201 (JObj [(''message'', JStr ''Bid submitted successfully''),
                                   (''bidId'', JNum 1)]),
          init_db\<lparr>bids := [\<lparr>b_id = 1, b_rfpId = Some 999, b_supplierId = Some 777,
                              b_amount = Some 10, b_documents = None, b_status = ''pending'',
                              b_createdAt = ''2024-05-01 12:00:00''\<rparr>],
                   bids_seq := 1\<rparr>)"
  using submit_bid_unchecked [OF reachable.fresh, of example_env "Some 999" "Some 777" "Some 10" None]
    reachable.fresh
  by (simp add: init_db_def example_env_def)

end
